theory Spec2Isabelle
  imports Main
begin

section \<open>The declared type surface\<close>

text \<open>
  The repository holds ambient TypeScript declarations only: interfaces, their method
  signatures and the exception names their documentation comments list under
  \<^verbatim>\<open>@throws\<close>. The development below transcribes these declarations as data, one
  definition per declared interface, and settles what the declarations themselves
  determine.
\<close>

subsection \<open>Type expressions\<close>

text \<open>
  A type as it is written in a signature. A named type carries its type arguments, so
  \<^verbatim>\<open>Promise<TokenResult>\<close> is \<open>TRef ''Promise'' [TRef ''TokenResult'' []]\<close>; a
  callback type carries its parameter names and types and its result type.
\<close>

datatype ty =
    TString
  | TBoolean
  | TVoid
  | TNull
  | TRef string "ty list"
  | TArray ty
  | TUnion "ty list"
  | TFun "(string \<times> ty) list" ty

definition named :: "string \<Rightarrow> ty" where
  "named n = TRef n []"

definition promise :: "ty \<Rightarrow> ty" where
  "promise t = TRef ''Promise'' [t]"

text \<open>A return type is promise-based when it is written \<^verbatim>\<open>Promise<...>\<close>.\<close>

fun is_promise :: "ty \<Rightarrow> bool" where
  "is_promise (TRef n ts) = (n = ''Promise'')"
| "is_promise _ = False"

subsection \<open>Signatures and interfaces\<close>

text \<open>A parameter \<^verbatim>\<open>name: T\<close>, or \<^verbatim>\<open>name?: T\<close> when optional.\<close>

record param =
  pname :: string
  ptype :: ty
  optional :: bool

definition req :: "string \<Rightarrow> ty \<Rightarrow> param" where
  "req n t = \<lparr>pname = n, ptype = t, optional = False\<rparr>"

definition opt :: "string \<Rightarrow> ty \<Rightarrow> param" where
  "opt n t = \<lparr>pname = n, ptype = t, optional = True\<rparr>"

text \<open>
  A method signature with the exception names of its \<^verbatim>\<open>@throws\<close> tags, in the order
  the documentation comment lists them.
\<close>

record method_sig =
  mname :: string
  params :: "param list"
  ret :: ty
  throws :: "string list"

text \<open>
  An interface: the interfaces it extends, its properties, its method signatures, and
  the calls its own \<^verbatim>\<open>@example\<close> makes on an instance, in order.
\<close>

record iface =
  iname :: string
  extends :: "string list"
  props :: "param list"
  methods :: "method_sig list"
  example :: "string list"

subsection \<open>payment-method/payment-method-types.d.ts\<close>

definition event_listener :: ty where
  "event_listener = named ''SqEventListener''"

definition PaymentMethod :: iface where
  "PaymentMethod = \<lparr>
     iname = ''PaymentMethod'',
     extends = [],
     props = [],
     methods = [
       \<lparr>mname = ''addEventListener'',
        params = [req ''type'' TString, req ''listener'' event_listener],
        ret = TVoid, throws = []\<rparr>,
       \<lparr>mname = ''removeEventListener'',
        params = [req ''type'' TString, req ''listener'' event_listener],
        ret = TVoid, throws = []\<rparr>,
       \<lparr>mname = ''destroy'', params = [],
        ret = promise (TUnion [TBoolean, TVoid]), throws = []\<rparr>],
     example = []\<rparr>"

definition PaymentRequestOptions :: iface where
  "PaymentRequestOptions = \<lparr>
     iname = ''PaymentRequestOptions'',
     extends = [],
     props = [
       req ''countryCode'' TString,
       req ''currencyCode'' (named ''CurrencyCodeValue''),
       opt ''discounts'' (TArray (named ''LineItem'')),
       opt ''lineItems'' (TArray (named ''LineItem'')),
       opt ''requestBillingContact'' TBoolean,
       opt ''requestShippingContact'' TBoolean,
       opt ''shippingContact'' (named ''ShippingContact''),
       opt ''shippingLineItems'' (TArray (named ''LineItem'')),
       opt ''shippingOptions'' (TArray (named ''ShippingOption'')),
       opt ''taxLineItems'' (TArray (named ''LineItem'')),
       req ''total'' (named ''LineItem'')],
     methods = [],
     example = []\<rparr>"

subsection \<open>payment-method/cards/method.d.ts (interface Card)\<close>

definition card_listener :: ty where
  "card_listener =
     TFun [(''event'', TRef ''SqEvent'' [named ''CardInputEvent''])] TVoid"

definition Card :: iface where
  "Card = \<lparr>
     iname = ''Card'',
     extends = [''PaymentMethod''],
     props = [],
     methods = [
       \<lparr>mname = ''configure'',
        params = [req ''options'' (named ''CardOptions'')],
        ret = promise TVoid,
        throws = [''PaymentMethodNotAttachedError'', ''UnexpectedError'']\<rparr>,
       \<lparr>mname = ''destroy'', params = [], ret = promise TBoolean, throws = []\<rparr>,
       \<lparr>mname = ''attach'',
        params = [req ''selectorOrElement'' (TUnion [TString, named ''HTMLElement''])],
        ret = promise TVoid,
        throws = [''PaymentMethodAlreadyAttachedError'', ''UnexpectedError'']\<rparr>,
       \<lparr>mname = ''recalculateSize'', params = [], ret = TVoid,
        throws = [''PaymentMethodNotAttachedError'']\<rparr>,
       \<lparr>mname = ''focus'',
        params = [req ''field'' (named ''CardFieldNamesValues'')],
        ret = promise TBoolean,
        throws = [''InvalidFieldNameError'']\<rparr>,
       \<lparr>mname = ''addEventListener'',
        params = [req ''eventType'' (named ''CardInputEventTypesValues''),
                  req ''callback'' card_listener],
        ret = TVoid, throws = []\<rparr>,
       \<lparr>mname = ''removeEventListener'',
        params = [req ''eventType'' (named ''CardInputEventTypesValues''),
                  req ''callback'' card_listener],
        ret = TVoid, throws = []\<rparr>,
       \<lparr>mname = ''tokenize'', params = [],
        ret = promise (named ''TokenResult''),
        throws = [''TokenizationError'', ''PaymentMethodNotAttachedError'',
                  ''TokenizationError'']\<rparr>],
     example = [''attach'', ''tokenize'']\<rparr>"

subsection \<open>payment-method/gift-card/method.d.ts\<close>

definition gift_card_listener :: ty where
  "gift_card_listener =
     TFun [(''event'', TRef ''SqEvent'' [named ''GiftCardInputEvent''])] TVoid"

definition GiftCard :: iface where
  "GiftCard = \<lparr>
     iname = ''GiftCard'',
     extends = [''PaymentMethod''],
     props = [],
     methods = [
       \<lparr>mname = ''attach'',
        params = [req ''selectorOrElement'' (TUnion [TString, named ''HTMLElement''])],
        ret = promise TVoid,
        throws = [''PaymentMethodAlreadyAttachedError'', ''UnexpectedError'']\<rparr>,
       \<lparr>mname = ''configure'',
        params = [req ''options'' (named ''GiftCardOptions'')],
        ret = promise TVoid,
        throws = [''PaymentMethodNotAttachedError'', ''UnexpectedError'']\<rparr>,
       \<lparr>mname = ''destroy'', params = [], ret = promise TBoolean, throws = []\<rparr>,
       \<lparr>mname = ''focus'',
        params = [req ''field'' (named ''GiftCardFieldNamesValues'')],
        ret = promise TBoolean, throws = []\<rparr>,
       \<lparr>mname = ''addEventListener'',
        params = [req ''eventType'' (named ''GiftCardInputEventTypesValues''),
                  req ''callback'' gift_card_listener],
        ret = TVoid, throws = []\<rparr>,
       \<lparr>mname = ''removeEventListener'',
        params = [req ''eventType'' (named ''GiftCardInputEventTypesValues''),
                  req ''callback'' gift_card_listener],
        ret = TVoid, throws = []\<rparr>,
       \<lparr>mname = ''tokenize'', params = [],
        ret = promise (named ''TokenResult''),
        throws = [''TokenizationError'', ''PaymentMethodNotAttachedError'',
                  ''TokenizationError'']\<rparr>],
     example = [''attach'', ''tokenize'']\<rparr>"

subsection \<open>payment-method/ach/method.d.ts\<close>

definition ach_listener :: ty where
  "ach_listener = TFun [(''event'', named ''SqEvent'')] TVoid"

definition ACH :: iface where
  "ACH = \<lparr>
     iname = ''ACH'',
     extends = [''PaymentMethod''],
     props = [],
     methods = [
       \<lparr>mname = ''tokenize'',
        params = [req ''options'' (named ''AchTokenOptions'')],
        ret = promise (named ''TokenResult''),
        throws = [''PlaidUninitializedError'', ''PlaidMissingNameError'',
                  ''TokenizationError'']\<rparr>,
       \<lparr>mname = ''destroy'', params = [], ret = promise TVoid, throws = []\<rparr>,
       \<lparr>mname = ''addEventListener'',
        params = [req ''eventType'' TString, req ''callback'' ach_listener],
        ret = TVoid, throws = []\<rparr>,
       \<lparr>mname = ''removeEventListener'',
        params = [req ''eventType'' TString, req ''callback'' ach_listener],
        ret = TVoid, throws = []\<rparr>],
     example = [''tokenize'']\<rparr>"

subsection \<open>payment-method/apple-pay/method.d.ts\<close>

definition ApplePay :: iface where
  "ApplePay = \<lparr>
     iname = ''ApplePay'',
     extends = [''PaymentMethod''],
     props = [],
     methods = [
       \<lparr>mname = ''tokenize'', params = [],
        ret = promise (named ''TokenResult''),
        throws = [''UnexpectedError'', ''TokenizationError'']\<rparr>,
       \<lparr>mname = ''destroy'', params = [], ret = promise TVoid, throws = []\<rparr>],
     example = [''tokenize'']\<rparr>"

subsection \<open>The ERC Pay method declaration (interface ERCPay)\<close>

definition ERCPay :: iface where
  "ERCPay = \<lparr>
     iname = ''ERCPay'',
     extends = [''PaymentMethod''],
     props = [],
     methods = [
       \<lparr>mname = ''attach'',
        params = [req ''selectorOrElement'' (TUnion [TString, named ''HTMLElement'']),
                  opt ''ercPayButtonOptions'' (named ''ERCPayButtonOptions'')],
        ret = promise TVoid,
        throws = [''PaymentMethodUnsupportedError'']\<rparr>,
       \<lparr>mname = ''destroy'', params = [], ret = promise TVoid, throws = []\<rparr>,
       \<lparr>mname = ''tokenize'', params = [],
        ret = promise (named ''TokenResult''),
        throws = [''UnexpectedError'']\<rparr>],
     example = [''attach'', ''tokenize'']\<rparr>"

subsection \<open>payment-request.d.ts (interface PaymentRequest)\<close>

definition PaymentRequest :: iface where
  "PaymentRequest = \<lparr>
     iname = ''PaymentRequest'',
     extends = [],
     props = [],
     methods = [
       \<lparr>mname = ''addEventListener'',
        params = [req ''event'' (named ''PaymentRequestEventValue''),
                  req ''callback'' (named ''PaymentRequestCallback'')],
        ret = TVoid, throws = []\<rparr>,
       \<lparr>mname = ''update'',
        params = [req ''options'' (TRef ''Partial'' [named ''PaymentRequestOptions''])],
        ret = TBoolean,
        throws = [''InvalidPaymentRequestError'']\<rparr>],
     example = []\<rparr>"

subsection \<open>payments.d.ts\<close>

definition Payments :: iface where
  "Payments = \<lparr>
     iname = ''Payments'',
     extends = [],
     props = [],
     methods = [
       \<lparr>mname = ''verifyBuyer'',
        params = [req ''source'' TString,
                  req ''details'' (TUnion [named ''ChargeVerifyBuyerDetails'',
                                           named ''StoreVerifyBuyerDetails''])],
        ret = promise (TUnion [named ''VerifyBuyerResponseDetails'', TNull]),
        throws = [''VerifyBuyerError'']\<rparr>,
       \<lparr>mname = ''paymentRequest'',
        params = [req ''options'' (named ''PaymentRequestOptions'')],
        ret = named ''PaymentRequest'', throws = []\<rparr>,
       \<lparr>mname = ''setLocale'',
        params = [req ''locale'' TString],
        ret = promise (named ''SetLocaleResult''),
        throws = [''UnexpectedError'']\<rparr>,
       \<lparr>mname = ''card'',
        params = [opt ''options'' (named ''CardOptions'')],
        ret = promise (named ''Card''),
        throws = [''UnexpectedError'']\<rparr>,
       \<lparr>mname = ''googlePay'',
        params = [req ''paymentRequest'' (named ''PaymentRequest'')],
        ret = promise (named ''GooglePay''),
        throws = [''InvalidPaymentRequestError'', ''UnexpectedError'',
                  ''ScriptLoaderError'']\<rparr>,
       \<lparr>mname = ''applePay'',
        params = [req ''paymentRequest'' (named ''PaymentRequest'')],
        ret = promise (named ''ApplePay''),
        throws = [''InvalidPaymentRequestError'', ''UnexpectedError'']\<rparr>,
       \<lparr>mname = ''ach'', params = [],
        ret = promise (named ''ACH''),
        throws = [''UnexpectedError'', ''ScriptLoaderError'']\<rparr>,
       \<lparr>mname = ''giftCard'',
        params = [opt ''options'' (named ''GiftCardOptions'')],
        ret = promise (named ''GiftCard''),
        throws = [''UnexpectedError'']\<rparr>,
       \<lparr>mname = ''cashApp'',
        params = [req ''options'' (named ''DigitalWalletOptions'')],
        ret = promise (named ''CashApp''), throws = []\<rparr>],
     example = []\<rparr>"

subsection \<open>The surface as a whole\<close>

text \<open>The interfaces that declare methods, and every (interface, method) pair.\<close>

definition surface :: "iface list" where
  "surface = [PaymentMethod, Card, GiftCard, ACH, ApplePay, ERCPay, PaymentRequest, Payments]"

definition declared_methods :: "(iface \<times> method_sig) list" where
  "declared_methods = concat (map (\<lambda>d. map (Pair d) (methods d)) surface)"

subsection \<open>Looking methods up\<close>

text \<open>
  An interface has the methods it declares and, from the interfaces it extends, those
  it does not redeclare. \<open>PaymentMethod\<close>, the only base interface of the surface,
  extends nothing, so one level of inheritance is all there is.
\<close>

definition find_iface :: "string \<Rightarrow> iface option" where
  "find_iface n = find (\<lambda>d. iname d = n) surface"

definition inherited :: "iface \<Rightarrow> method_sig list" where
  "inherited d = concat (map methods (List.map_filter find_iface (extends d)))"

definition members :: "iface \<Rightarrow> method_sig list" where
  "members d =
     methods d @ filter (\<lambda>m. mname m \<notin> set (map mname (methods d))) (inherited d)"

definition sig_of :: "iface \<Rightarrow> string \<Rightarrow> method_sig option" where
  "sig_of d n = find (\<lambda>m. mname m = n) (members d)"

definition has_method :: "iface \<Rightarrow> string \<Rightarrow> bool" where
  "has_method d n = (sig_of d n \<noteq> None)"

definition returns :: "iface \<Rightarrow> string \<Rightarrow> ty option" where
  "returns d n = map_option ret (sig_of d n)"

definition param_types :: "iface \<Rightarrow> string \<Rightarrow> ty list option" where
  "param_types d n = map_option (\<lambda>m. map ptype (params m)) (sig_of d n)"



subsection \<open>Properties of signatures and of call sequences\<close>

definition all_promise_based :: "(iface \<times> method_sig) list \<Rightarrow> bool" where
  "all_promise_based ms = list_all (\<lambda>(d, m). is_promise (ret m)) ms"

text \<open>
  A sequence of calls on one payment-method instance keeps the order of the
  tokenization contract when no \<open>tokenize\<close> comes before the first \<open>attach\<close>.
\<close>

fun attach_before_tokenize :: "string list \<Rightarrow> bool" where
  "attach_before_tokenize [] = True"
| "attach_before_tokenize (c # cs) =
     (if c = ''attach'' then True else c \<noteq> ''tokenize'' \<and> attach_before_tokenize cs)"

text \<open>A client can write a call sequence against \<open>d\<close> when \<open>d\<close> has every method called.\<close>

definition callable :: "iface \<Rightarrow> string list \<Rightarrow> bool" where
  "callable d tr = list_all (has_method d) tr"

section \<open>Call order\<close>

lemma order_needs_attach:
  "attach_before_tokenize tr \<Longrightarrow> ''tokenize'' \<in> set tr \<Longrightarrow> ''attach'' \<in> set tr"
  by (induction tr) (auto split: if_splits)

lemma callable_has_method: "callable d tr \<Longrightarrow> c \<in> set tr \<Longrightarrow> has_method d c"
  by (simp add: callable_def list_all_iff)

text \<open>
  On an interface without \<open>attach\<close>, no call sequence that reaches \<open>tokenize\<close> keeps the
  attach-first order.
\<close>

lemma tokenize_without_attach:
  "\<not> has_method d ''attach'' \<Longrightarrow> callable d tr \<Longrightarrow> ''tokenize'' \<in> set tr
     \<Longrightarrow> \<not> attach_before_tokenize tr"
  using order_needs_attach callable_has_method by blast



section \<open>Return types\<close>

text \<open>
  C4, as stated, fails on \<open>PaymentRequest.update\<close>, which returns \<open>boolean\<close>: not every
  declared method signature has a promise-based return type.
\<close>

theorem update_returns_boolean:
  "returns PaymentRequest ''update'' = Some TBoolean \<and> \<not> is_promise TBoolean
     \<and> \<not> all_promise_based declared_methods"
  by code_simp

text \<open>
  C4 (amended): every declared method signature has a promise-based return type except
  the synchronous ones, which are exactly these twelve: \<open>addEventListener\<close> and
  \<open>removeEventListener\<close> wherever they are declared and \<open>Card.recalculateSize\<close>
  (\<open>void\<close>), \<open>PaymentRequest.update\<close> (\<open>boolean\<close>) and \<open>Payments.paymentRequest\<close>
  (\<open>PaymentRequest\<close>).
\<close>

theorem synchronous_methods:
  "map (\<lambda>(d, m). (iname d, mname m, ret m))
       (filter (\<lambda>(d, m). \<not> is_promise (ret m)) declared_methods) =
   [(''PaymentMethod'', ''addEventListener'', TVoid),
    (''PaymentMethod'', ''removeEventListener'', TVoid),
    (''Card'', ''recalculateSize'', TVoid),
    (''Card'', ''addEventListener'', TVoid),
    (''Card'', ''removeEventListener'', TVoid),
    (''GiftCard'', ''addEventListener'', TVoid),
    (''GiftCard'', ''removeEventListener'', TVoid),
    (''ACH'', ''addEventListener'', TVoid),
    (''ACH'', ''removeEventListener'', TVoid),
    (''PaymentRequest'', ''addEventListener'', TVoid),
    (''PaymentRequest'', ''update'', TBoolean),
    (''Payments'', ''paymentRequest'', named ''PaymentRequest'')]"
  by code_simp

section \<open>Payment requests\<close>

text \<open>
  C10: the \<open>PaymentRequestOptions\<close> shape has the properties \<open>lineItems\<close>,
  \<open>shippingOptions\<close> (optional lists) and \<open>total\<close> (a required line item);
  \<open>payments.paymentRequest\<close> turns such options into a \<open>PaymentRequest\<close>;
  \<open>payments.applePay\<close> and \<open>payments.googlePay\<close> each take exactly one parameter, a
  \<open>PaymentRequest\<close>; \<open>payments.card\<close> and \<open>payments.giftCard\<close> take only their own
  options and \<open>payments.ach\<close> takes nothing.
\<close>

theorem payment_request_to_wallets:
  "map (\<lambda>p. (pname p, ptype p, optional p))
       (filter (\<lambda>p. pname p \<in> set [''lineItems'', ''total'', ''shippingOptions''])
               (props PaymentRequestOptions)) =
     [(''lineItems'', TArray (named ''LineItem''), True),
      (''shippingOptions'', TArray (named ''ShippingOption''), True),
      (''total'', named ''LineItem'', False)]
   \<and> param_types Payments ''paymentRequest'' = Some [named ''PaymentRequestOptions'']
   \<and> returns Payments ''paymentRequest'' = Some (named ''PaymentRequest'')
   \<and> param_types Payments ''applePay'' = Some [named ''PaymentRequest'']
   \<and> param_types Payments ''googlePay'' = Some [named ''PaymentRequest'']
   \<and> param_types Payments ''card'' = Some [named ''CardOptions'']
   \<and> param_types Payments ''ach'' = Some []
   \<and> param_types Payments ''giftCard'' = Some [named ''GiftCardOptions'']"
  by code_simp

end
